theory Spec2Isabelle
  imports Complex_Main
begin

section \<open>Conventions of the embedding\<close>

text \<open>
  The development embeds the rule-based parts of the banking document pipeline:
  the KYC/AML validator (\<^verbatim>\<open>services/validator.py\<close>), the KYC pre-screen
  (\<^verbatim>\<open>services/kyc_processor.py\<close>), the confidence gate
  (\<^verbatim>\<open>services/extractor.py\<close>), the MICR extractor
  (\<^verbatim>\<open>services/cheque_processor.py\<close>) and the invoice cross-check
  (\<^verbatim>\<open>services/invoice_processor.py\<close>).

  \<^item> A Python \<^verbatim>\<open>str\<close> is a \<^typ>\<open>string\<close>. Text is taken to be ASCII; the few
    non-ASCII characters of the source's literals (the em dash of the messages, the two
    MICR symbols) stand as their UTF-8 bytes.
  \<^item> A Python \<^verbatim>\<open>float\<close> is a \<^typ>\<open>real\<close>: scores and confidences are added and
    compared exactly. Every score the code can reach is a short sum of the decimal
    constants of the source, and on those sums the comparisons with the thresholds come out
    the same in binary floating point.
  \<^item> A list that a check mutates in place (\<^verbatim>\<open>passed\<close>, \<^verbatim>\<open>failed\<close>,
    \<^verbatim>\<open>flags\<close>) is passed in and returned updated.
  \<^item> \<^verbatim>\<open>date.today()\<close> is an input of the model, the parameter \<open>today\<close>.
\<close>

section \<open>Strings\<close>

definition lower_char :: "char \<Rightarrow> char" where
  "lower_char c =
     (case map_of (zip ''ABCDEFGHIJKLMNOPQRSTUVWXYZ'' ''abcdefghijklmnopqrstuvwxyz'') c of
        Some d \<Rightarrow> d
      | None \<Rightarrow> c)"

text \<open>\<^verbatim>\<open>s.lower()\<close>\<close>

definition lower :: "string \<Rightarrow> string" where
  "lower s = map lower_char s"

text \<open>The ASCII characters for which \<^verbatim>\<open>str.isspace\<close> holds: tab to carriage return,
  the four separators \<^verbatim>\<open>0x1c\<close> to \<^verbatim>\<open>0x1f\<close>, and the blank.\<close>

definition is_space :: "char \<Rightarrow> bool" where
  "is_space c = (let n = (of_char c :: nat) in (9 \<le> n \<and> n \<le> 13) \<or> (28 \<le> n \<and> n \<le> 32))"

definition is_digit :: "char \<Rightarrow> bool" where
  "is_digit c = (c \<in> set ''0123456789'')"

text \<open>\<^verbatim>\<open>s.strip()\<close>\<close>

definition strip :: "string \<Rightarrow> string" where
  "strip s = rev (dropWhile is_space (rev (dropWhile is_space s)))"

text \<open>\<^verbatim>\<open>s.startswith(p)\<close>\<close>

fun starts_with :: "string \<Rightarrow> string \<Rightarrow> bool" where
  "starts_with s [] = True"
| "starts_with [] (p # ps) = False"
| "starts_with (c # s) (p # ps) = (c = p \<and> starts_with s ps)"

text \<open>\<^verbatim>\<open>sub in s\<close> on strings\<close>

fun is_substring :: "string \<Rightarrow> string \<Rightarrow> bool" where
  "is_substring sub [] = (sub = [])"
| "is_substring sub (c # s) = (starts_with (c # s) sub \<or> is_substring sub s)"

text \<open>\<^verbatim>\<open>sep.join(xs)\<close>\<close>

fun join :: "string \<Rightarrow> string list \<Rightarrow> string" where
  "join sep [] = []"
| "join sep [x] = x"
| "join sep (x # y # ys) = x @ sep @ join sep (y # ys)"

definition em_dash :: string where
  "em_dash = [CHR 0xE2, CHR 0x80, CHR 0x94]"

section \<open>Data model\<close>

text \<open>\<^verbatim>\<open>models/schemas.py\<close>: \<^verbatim>\<open>ExtractedField\<close>. The slot \<^verbatim>\<open>value\<close> is
  \<open>fvalue\<close> here.\<close>

record ExtractedField =
  field_name :: string
  fvalue :: "string option"
  confidence :: real
  bounding_box :: "real list option"
  page_number :: "int option"

text \<open>Truth value of an \<^verbatim>\<open>Optional[str]\<close>: \<^verbatim>\<open>None\<close> and the empty string are
  false.\<close>

fun truthy :: "string option \<Rightarrow> bool" where
  "truthy None = False"
| "truthy (Some s) = (s \<noteq> [])"

text \<open>\<^verbatim>\<open>a or b\<close> on two results of \<^verbatim>\<open>dict.get\<close>: a model object is always true,
  so the first one that is present is taken, whatever its value.\<close>

fun py_or :: "'a option \<Rightarrow> 'a option \<Rightarrow> 'a option" where
  "py_or (Some a) b = Some a"
| "py_or None b = b"

datatype ValidationStatus = PASSED | FAILED | NEEDS_MANUAL_REVIEW | PENDING

record ValidationResult =
  status :: ValidationStatus
  checks_passed :: "string list"
  checks_failed :: "string list"
  risk_score :: real
  flags :: "string list"
  recommendation :: string

datatype py_error = ValueError | ValidationError | AttributeError | TypeError

text \<open>The constructor of \<^verbatim>\<open>ValidationResult\<close> validates
  \<^verbatim>\<open>risk_score: float = Field(ge=0.0, le=1.0)\<close> and raises otherwise.\<close>

definition new_ValidationResult ::
  "ValidationStatus \<Rightarrow> string list \<Rightarrow> string list \<Rightarrow> real \<Rightarrow> string list \<Rightarrow> string
     \<Rightarrow> py_error + ValidationResult" where
  "new_ValidationResult st ps fs r fl rec =
     (if 0 \<le> r \<and> r \<le> 1
      then Inr \<lparr>status = st, checks_passed = ps, checks_failed = fs, risk_score = r,
                flags = fl, recommendation = rec\<rparr>
      else Inl ValidationError)"

text \<open>\<^verbatim>\<open>{f.field_name: f for f in extracted_fields}\<close>: a later field replaces an
  earlier one of the same name.\<close>

type_synonym field_map = "string \<rightharpoonup> ExtractedField"

definition build_field_map :: "ExtractedField list \<Rightarrow> field_map" where
  "build_field_map extracted_fields =
     fold (\<lambda>f m. m(field_name f \<mapsto> f)) extracted_fields Map.empty"

section \<open>Dates and \<^verbatim>\<open>datetime.strptime\<close>\<close>

record date =
  year :: nat
  month :: nat
  day :: nat

text \<open>\<^verbatim>\<open>a < b\<close> on dates\<close>

definition date_less :: "date \<Rightarrow> date \<Rightarrow> bool" where
  "date_less a b =
     (year a < year b \<or> (year a = year b \<and> (month a < month b \<or>
        (month a = month b \<and> day a < day b))))"

definition is_leap :: "nat \<Rightarrow> bool" where
  "is_leap y = (y mod 4 = 0 \<and> (y mod 100 \<noteq> 0 \<or> y mod 400 = 0))"

definition days_in_month :: "nat \<Rightarrow> nat \<Rightarrow> nat" where
  "days_in_month y m =
     (if m = 2 then (if is_leap y then 29 else 28)
      else if m \<in> {4, 6, 9, 11} then 30 else 31)"

text \<open>The directives of the three formats. \<^verbatim>\<open>strptime\<close> turns a format into a regular
  expression: \<^verbatim>\<open>%Y\<close> is \<^verbatim>\<open>\d\d\d\d\<close>, \<^verbatim>\<open>%m\<close> is
  \<^verbatim>\<open>1[0-2]|0[1-9]|[1-9]\<close>, \<^verbatim>\<open>%d\<close> is
  \<^verbatim>\<open>3[0-1]|[1-2]\d|0[1-9]|[1-9]| [1-9]\<close>, any other character is itself.\<close>

datatype directive = DirY | Dirm | Dird | Lit char

text \<open>The ways one directive matches at the start of a string, in the order the
  backtracking matcher tries them: the text matched and the rest.\<close>

definition alt2 :: "string \<Rightarrow> string \<Rightarrow> string \<Rightarrow> (string \<times> string) list" where
  "alt2 first second s =
     (case s of
        a # b # rest \<Rightarrow> (if a \<in> set first \<and> b \<in> set second then [([a, b], rest)] else [])
      | _ \<Rightarrow> [])"

definition alt1 :: "string \<Rightarrow> string \<Rightarrow> (string \<times> string) list" where
  "alt1 first s =
     (case s of
        a # rest \<Rightarrow> (if a \<in> set first then [([a], rest)] else [])
      | _ \<Rightarrow> [])"

fun match_directive :: "directive \<Rightarrow> string \<Rightarrow> (string \<times> string) list" where
  "match_directive DirY s =
     (if 4 \<le> length s \<and> list_all is_digit (take 4 s) then [(take 4 s, drop 4 s)] else [])"
| "match_directive Dirm s =
     alt2 ''1'' ''012'' s @ alt2 ''0'' ''123456789'' s @ alt1 ''123456789'' s"
| "match_directive Dird s =
     alt2 ''3'' ''01'' s @ alt2 ''12'' ''0123456789'' s @ alt2 ''0'' ''123456789'' s
       @ alt1 ''123456789'' s @ alt2 '' '' ''123456789'' s"
| "match_directive (Lit c) s = alt1 [c] s"

text \<open>All matches of a format at the start of a string, in the matcher's order, each with
  the text of its groups and the unmatched rest.\<close>

fun match_format :: "directive list \<Rightarrow> string \<Rightarrow> ((directive \<times> string) list \<times> string) list" where
  "match_format [] s = [([], s)]"
| "match_format (d # ds) s =
     concat (map (\<lambda>(txt, rest). map (\<lambda>(gs, r). ((d, txt) # gs, r)) (match_format ds rest))
                 (match_directive d s))"

text \<open>\<^verbatim>\<open>int(s)\<close> on a group: blanks around the digits are ignored.\<close>

definition digit_val :: "char \<Rightarrow> nat" where
  "digit_val c = (of_char c :: nat) - 48"

definition int_of_str :: "string \<Rightarrow> nat" where
  "int_of_str s = foldl (\<lambda>n c. 10 * n + digit_val c) 0 (strip s)"

definition group :: "directive \<Rightarrow> (directive \<times> string) list \<Rightarrow> nat" where
  "group d gs = (case map_of gs d of Some txt \<Rightarrow> int_of_str txt | None \<Rightarrow> 0)"

text \<open>\<^verbatim>\<open>datetime.strptime(s, fmt).date()\<close>: the first match of the format's expression;
  \<^verbatim>\<open>ValueError\<close> when there is none, when it leaves text unconverted, or when the
  numbers are not a date (year 0, day beyond the month's length).\<close>

definition strptime :: "string \<Rightarrow> directive list \<Rightarrow> py_error + date" where
  "strptime s fmt =
     (case match_format fmt s of
        [] \<Rightarrow> Inl ValueError
      | (gs, rest) # _ \<Rightarrow>
          if rest \<noteq> [] then Inl ValueError
          else let y = group DirY gs; m = group Dirm gs; d = group Dird gs
               in if 1 \<le> y \<and> 1 \<le> m \<and> m \<le> 12 \<and> 1 \<le> d \<and> d \<le> days_in_month y m
                  then Inr \<lparr>year = y, month = m, day = d\<rparr>
                  else Inl ValueError)"

definition fmt_ymd :: "directive list" where
  "fmt_ymd = [DirY, Lit CHR ''-'', Dirm, Lit CHR ''-'', Dird]"

definition fmt_dmy :: "directive list" where
  "fmt_dmy = [Dird, Lit CHR ''/'', Dirm, Lit CHR ''/'', DirY]"

definition fmt_mdy :: "directive list" where
  "fmt_mdy = [Dirm, Lit CHR ''/'', Dird, Lit CHR ''/'', DirY]"

section \<open>The KYC/AML validator\<close>

definition REQUIRED_KYC_FIELDS :: "string list" where
  "REQUIRED_KYC_FIELDS =
     [''customer_name'', ''date_of_birth'', ''nationality'', ''source_of_funds'', ''occupation'']"

definition SANCTIONS_KEYWORDS :: "string list" where
  "SANCTIONS_KEYWORDS = [''sanctioned_entity_1'', ''sanctioned_entity_2'']"

definition FATF_HIGH_RISK :: "string list" where
  "FATF_HIGH_RISK = [''Iran'', ''North Korea'', ''Myanmar'']"

definition FATF_INCREASED_MONITORING :: "string list" where
  "FATF_INCREASED_MONITORING =
     [''Syria'', ''Yemen'', ''South Sudan'', ''Libya'', ''Haiti'', ''Nigeria'', ''Philippines'']"

text \<open>Each check returns its verdict with the lists it was given, one of them extended.\<close>

subsection \<open>Check 1: field completeness\<close>

definition field_missing :: "field_map \<Rightarrow> string \<Rightarrow> bool" where
  "field_missing fm name = (case fm name of None \<Rightarrow> True | Some f \<Rightarrow> \<not> truthy (fvalue f))"

definition check_field_completeness ::
  "field_map \<Rightarrow> string list \<Rightarrow> string list \<Rightarrow> bool \<times> string list \<times> string list" where
  "check_field_completeness fm passed failed =
     (let missing = filter (field_missing fm) REQUIRED_KYC_FIELDS
      in if missing \<noteq> []
         then (False, passed, failed @ [''Missing required fields: '' @ join '', '' missing])
         else (True, passed @ [''All required KYC fields present''], failed))"

subsection \<open>Check 2: ID document validity\<close>

text \<open>The loop over the formats: the first format that parses decides; a
  \<^verbatim>\<open>ValueError\<close> moves on to the next one.\<close>

fun try_formats ::
  "date \<Rightarrow> string \<Rightarrow> directive list list \<Rightarrow> string list \<Rightarrow> string list
     \<Rightarrow> bool \<times> string list \<times> string list" where
  "try_formats today v [] passed failed =
     (True, passed @ [''ID expiry date format unrecognized '' @ em_dash @ '' manual check needed''],
      failed)"
| "try_formats today v (fmt # fmts) passed failed =
     (case strptime v fmt of
        Inr expiry \<Rightarrow>
          if date_less expiry today
          then (False, passed, failed @ [''ID document expired: '' @ v])
          else (True, passed @ [''ID document is valid and not expired''], failed)
      | Inl e \<Rightarrow> try_formats today v fmts passed failed)"

text \<open>The outer handler \<^verbatim>\<open>except Exception\<close> has no branch here: \<^verbatim>\<open>strptime\<close>
  on a string raises nothing but \<^verbatim>\<open>ValueError\<close>, which the inner handler takes.\<close>

definition check_id_validity ::
  "date \<Rightarrow> field_map \<Rightarrow> string list \<Rightarrow> string list \<Rightarrow> bool \<times> string list \<times> string list" where
  "check_id_validity today fm passed failed =
     (case py_or (fm ''expiry_date'') (fm ''id_expiry'') of
        Some expiry_field \<Rightarrow>
          (case fvalue expiry_field of
             Some v \<Rightarrow>
               if v \<noteq> [] then try_formats today v [fmt_ymd, fmt_dmy, fmt_mdy] passed failed
               else (True, passed @ [''ID expiry check skipped '' @ em_dash @ '' no expiry field found''],
                     failed)
           | None \<Rightarrow>
               (True, passed @ [''ID expiry check skipped '' @ em_dash @ '' no expiry field found''],
                failed))
      | None \<Rightarrow>
          (True, passed @ [''ID expiry check skipped '' @ em_dash @ '' no expiry field found''],
           failed))"

subsection \<open>Check 3: sanctions screening\<close>

fun sanctions_hit :: "string \<Rightarrow> string list \<Rightarrow> bool" where
  "sanctions_hit name_lower [] = False"
| "sanctions_hit name_lower (sanctioned # rest) =
     (if is_substring (lower sanctioned) name_lower then True
      else sanctions_hit name_lower rest)"

definition check_sanctions ::
  "field_map \<Rightarrow> string list \<Rightarrow> string list \<Rightarrow> string list
     \<Rightarrow> bool \<times> string list \<times> string list \<times> string list" where
  "check_sanctions fm passed failed flgs =
     (case py_or (fm ''customer_name'') (fm ''full_name'') of
        Some name_field \<Rightarrow>
          (case fvalue name_field of
             Some v \<Rightarrow>
               if v \<noteq> [] then
                 (if sanctions_hit (lower v) SANCTIONS_KEYWORDS
                  then (False, passed, failed @ [''SANCTIONS MATCH: '' @ v],
                        flgs @ [''SANCTIONS_HIT''])
                  else (True, passed @ [''Sanctions screening: CLEAR''], failed, flgs))
               else (True, passed @ [''Sanctions screening skipped '' @ em_dash @ '' no name found''],
                     failed, flgs)
           | None \<Rightarrow>
               (True, passed @ [''Sanctions screening skipped '' @ em_dash @ '' no name found''],
                failed, flgs))
      | None \<Rightarrow>
          (True, passed @ [''Sanctions screening skipped '' @ em_dash @ '' no name found''],
           failed, flgs))"

subsection \<open>Check 4: high-risk jurisdiction\<close>

definition check_jurisdiction ::
  "field_map \<Rightarrow> string list \<Rightarrow> string list \<Rightarrow> string list
     \<Rightarrow> bool \<times> string list \<times> string list \<times> string list" where
  "check_jurisdiction fm passed failed flgs =
     (case fm ''nationality'' of
        Some nationality \<Rightarrow>
          (case fvalue nationality of
             Some v \<Rightarrow>
               if v \<noteq> [] then
                 (let country = strip v in
                  if country \<in> set FATF_HIGH_RISK
                  then (False, passed, failed @ [''FATF High-Risk Jurisdiction: '' @ country],
                        flgs @ [''FATF_HIGH_RISK''])
                  else if country \<in> set FATF_INCREASED_MONITORING
                  then (False, passed, failed @ [''FATF Increased Monitoring: '' @ country],
                        flgs @ [''FATF_MONITORING''])
                  else (True, passed @ [''Jurisdiction check: '' @ country @ '' '' @ em_dash @ '' CLEAR''],
                        failed, flgs))
               else (True,
                     passed @ [''Jurisdiction check skipped '' @ em_dash @ '' no nationality found''],
                     failed, flgs)
           | None \<Rightarrow>
               (True,
                passed @ [''Jurisdiction check skipped '' @ em_dash @ '' no nationality found''],
                failed, flgs))
      | None \<Rightarrow>
          (True, passed @ [''Jurisdiction check skipped '' @ em_dash @ '' no nationality found''],
           failed, flgs))"

subsection \<open>Check 5: PEP status\<close>

definition check_pep_status ::
  "field_map \<Rightarrow> string list \<Rightarrow> string list \<Rightarrow> string list
     \<Rightarrow> bool \<times> string list \<times> string list \<times> string list" where
  "check_pep_status fm passed failed flgs =
     (case fm ''politically_exposed'' of
        Some pep_field \<Rightarrow>
          (case fvalue pep_field of
             Some v \<Rightarrow>
               if v \<noteq> [] then
                 (if lower v \<in> set [''yes'', ''true'', ''1'']
                  then (False, passed, failed @ [''Customer is a Politically Exposed Person (PEP)''],
                        flgs @ [''PEP_IDENTIFIED''])
                  else (True, passed @ [''PEP check: Not a PEP''], failed, flgs))
               else (True, passed @ [''PEP check skipped '' @ em_dash @ '' no PEP field found''],
                     failed, flgs)
           | None \<Rightarrow>
               (True, passed @ [''PEP check skipped '' @ em_dash @ '' no PEP field found''],
                failed, flgs))
      | None \<Rightarrow>
          (True, passed @ [''PEP check skipped '' @ em_dash @ '' no PEP field found''],
           failed, flgs))"

subsection \<open>Check 6: confidence of the critical fields\<close>

definition check_confidence_levels ::
  "ExtractedField list \<Rightarrow> string list \<Rightarrow> string list \<Rightarrow> bool \<times> string list \<times> string list" where
  "check_confidence_levels extracted_fields passed failed =
     (let low_confidence_fields =
            filter (\<lambda>f. confidence f < 0.80 \<and> field_name f \<in> set REQUIRED_KYC_FIELDS)
                   extracted_fields
      in if low_confidence_fields \<noteq> []
         then (False, passed,
               failed @ [''Low confidence on critical fields: ''
                           @ join '', '' (map field_name low_confidence_fields)])
         else (True, passed @ [''All critical fields meet confidence threshold''], failed))"

subsection \<open>The validation suite\<close>

definition validate_kyc ::
  "date \<Rightarrow> ExtractedField list \<Rightarrow> string \<Rightarrow> py_error + ValidationResult" where
  "validate_kyc today extracted_fields document_type =
     (let checks_passed = []; checks_failed = []; flgs = []; score = (0.0 :: real);
          fm = build_field_map extracted_fields;
          (completeness_ok, checks_passed, checks_failed) =
             check_field_completeness fm checks_passed checks_failed;
          score = (if \<not> completeness_ok then score + 0.15 else score);
          (id_valid, checks_passed, checks_failed) =
             check_id_validity today fm checks_passed checks_failed;
          score = (if \<not> id_valid then score + 0.1 else score);
          (sanctions_clear, checks_passed, checks_failed, flgs) =
             check_sanctions fm checks_passed checks_failed flgs;
          score = (if \<not> sanctions_clear then score + 0.5 else score);
          (jurisdiction_ok, checks_passed, checks_failed, flgs) =
             check_jurisdiction fm checks_passed checks_failed flgs;
          score = (if \<not> jurisdiction_ok then score + 0.3 else score);
          (pep_clear, checks_passed, checks_failed, flgs) =
             check_pep_status fm checks_passed checks_failed flgs;
          score = (if \<not> pep_clear then score + 0.25 else score);
          (confidence_ok, checks_passed, checks_failed) =
             check_confidence_levels extracted_fields checks_passed checks_failed;
          score = (if \<not> confidence_ok then score + 0.1 else score);
          score = min score 1.0
      in if checks_failed \<noteq> [] then
           (if score \<ge> 0.5
            then new_ValidationResult FAILED checks_passed checks_failed score flgs
                   (''REJECT '' @ em_dash @ '' High-risk indicators detected. Escalate to compliance.'')
            else new_ValidationResult NEEDS_MANUAL_REVIEW checks_passed checks_failed score flgs
                   (''REVIEW '' @ em_dash @ '' Some checks failed. Manual review required by compliance officer.''))
         else new_ValidationResult PASSED checks_passed checks_failed score flgs
                (''APPROVED '' @ em_dash @ '' All compliance checks passed.''))"

subsection \<open>Notions used to state the validator's properties\<close>

text \<open>One entry, or none: \<open>entry_if b m\<close> is what a check adds to a list that it
  extends exactly when \<open>b\<close> holds.\<close>

definition entry_if :: "bool \<Rightarrow> 'a \<Rightarrow> 'a list" where
  "entry_if b m = (if b then [m] else [])"

text \<open>What a check adds to the score: nothing when it passes, its delta when it fails.\<close>

definition penalty :: "bool \<Rightarrow> real \<Rightarrow> real" where
  "penalty ok d = (if ok then 0 else d)"


text \<open>The date of the first format, in the order given, under which the value parses.\<close>

fun first_parse :: "string \<Rightarrow> directive list list \<Rightarrow> date option" where
  "first_parse v [] = None"
| "first_parse v (fmt # fmts) =
     (case strptime v fmt of Inr d \<Rightarrow> Some d | Inl e \<Rightarrow> first_parse v fmts)"

text \<open>The expiry value the check consults: that of \<^verbatim>\<open>expiry_date\<close> when the field
  map has this key, else that of \<^verbatim>\<open>id_expiry\<close>; nothing when the field or its value
  is absent or the value is empty.\<close>

definition expiry_value :: "field_map \<Rightarrow> string option" where
  "expiry_value fm =
     (case py_or (fm ''expiry_date'') (fm ''id_expiry'') of
        Some ef \<Rightarrow> (case fvalue ef of Some v \<Rightarrow> if v \<noteq> [] then Some v else None | None \<Rightarrow> None)
      | None \<Rightarrow> None)"

definition id_expired :: "date \<Rightarrow> field_map \<Rightarrow> bool" where
  "id_expired today fm =
     (case expiry_value fm of
        Some v \<Rightarrow>
          (case first_parse v [fmt_ymd, fmt_dmy, fmt_mdy] of
             Some d \<Rightarrow> date_less d today
           | None \<Rightarrow> False)
      | None \<Rightarrow> False)"

section \<open>The KYC pre-screen\<close>

text \<open>\<^verbatim>\<open>services/kyc_processor.py\<close>. The extraction returns a JSON object whose values
  are strings or \<^verbatim>\<open>null\<close> (\<^verbatim>\<open>_make_field\<close> takes \<^verbatim>\<open>value: str | None\<close>): a key
  maps to \<open>Some s\<close> or to \<open>None\<close>, and a key that is absent is not in the map.\<close>

type_synonym kyc_data = "string \<rightharpoonup> string option"

definition high_risk_countries :: "string list" where
  "high_risk_countries =
     [''Iran'', ''North Korea'', ''Syria'', ''Yemen'', ''Libya'', ''Somalia'', ''South Sudan'',
      ''Myanmar'']"

definition high_risk_occupations :: "string list" where
  "high_risk_occupations =
     [''money exchanger'', ''casino'', ''gambling'', ''cryptocurrency'', ''arms dealer'',
      ''precious metals'', ''real estate agent'']"

definition pep_risk_multiplier :: real where
  "pep_risk_multiplier = 2.0"

definition missing_field_penalty :: real where
  "missing_field_penalty = 0.1"

text \<open>\<^verbatim>\<open>kyc_data.get(key)\<close>, with \<^verbatim>\<open>null\<close> and an absent key both \<^verbatim>\<open>None\<close>.\<close>

definition kyc_get :: "kyc_data \<Rightarrow> string \<Rightarrow> string option" where
  "kyc_get d key = (case d key of Some v \<Rightarrow> v | None \<Rightarrow> None)"

text \<open>\<^verbatim>\<open>kyc_data.get(key) or ""\<close>\<close>

definition get_or_empty :: "kyc_data \<Rightarrow> string \<Rightarrow> string" where
  "get_or_empty d key = (case kyc_get d key of Some s \<Rightarrow> s | None \<Rightarrow> [])"

text \<open>The loop over the occupations, left at the first match.\<close>

fun occupation_loop :: "string \<Rightarrow> string list \<Rightarrow> real \<Rightarrow> real" where
  "occupation_loop occupation [] score = score"
| "occupation_loop occupation (high_risk_occ # rest) score =
     (if is_substring high_risk_occ occupation then score + 0.3
      else occupation_loop occupation rest score)"

text \<open>The loop over the critical fields.\<close>

fun missing_loop :: "kyc_data \<Rightarrow> string list \<Rightarrow> real \<Rightarrow> real" where
  "missing_loop d [] score = score"
| "missing_loop d (field # rest) score =
     missing_loop d rest
       (if \<not> truthy (kyc_get d field) then score + missing_field_penalty else score)"

definition critical_fields :: "string list" where
  "critical_fields =
     [''customer_name'', ''date_of_birth'', ''nationality'', ''source_of_funds'', ''occupation'']"

text \<open>The body of \<^verbatim>\<open>_calculate_risk_rating\<close> up to the mapping: the value of its
  variable \<^verbatim>\<open>risk_score\<close>.\<close>

definition calculate_risk_score :: "kyc_data \<Rightarrow> real" where
  "calculate_risk_score d =
     (let score = (0.0 :: real);
          nationality = strip (get_or_empty d ''nationality'');
          score = (if nationality \<in> set high_risk_countries then score + 0.4 else score);
          occupation = lower (get_or_empty d ''occupation'');
          score = occupation_loop occupation high_risk_occupations score;
          pep = lower (get_or_empty d ''politically_exposed'');
          score = (if pep \<in> set [''yes'', ''true'', ''1'']
                   then score * pep_risk_multiplier + 0.3 else score);
          score = missing_loop d critical_fields score
      in score)"

definition calculate_risk_rating :: "kyc_data \<Rightarrow> string" where
  "calculate_risk_rating d =
     (let score = calculate_risk_score d
      in if score \<ge> 0.7 then ''very_high''
         else if score \<ge> 0.4 then ''high''
         else if score \<ge> 0.2 then ''medium''
         else ''low'')"

text \<open>The pre-screen as the specification words it: the four contributions, and the
  mapping of a score to a rating.\<close>

definition prescreen_score_spec :: "kyc_data \<Rightarrow> real" where
  "prescreen_score_spec d =
     (let base = (if strip (get_or_empty d ''nationality'') \<in> set high_risk_countries
                  then 0.4 else 0)
               + (if list_ex (\<lambda>occ. is_substring occ (lower (get_or_empty d ''occupation'')))
                      high_risk_occupations
                  then 0.3 else 0);
          with_pep = (if lower (get_or_empty d ''politically_exposed'') \<in> {''yes'', ''true'', ''1''}
                      then base * 2.0 + 0.3 else base)
      in with_pep
         + 0.1 * real (length (filter (\<lambda>k. \<not> truthy (kyc_get d k)) critical_fields)))"

definition rating_spec :: "real \<Rightarrow> string" where
  "rating_spec score =
     (if score \<ge> 0.7 then ''very_high'' else if score \<ge> 0.4 then ''high''
      else if score \<ge> 0.2 then ''medium'' else ''low'')"

section \<open>The confidence gate\<close>

text \<open>\<^verbatim>\<open>DocumentExtractor.check_confidence\<close> in \<^verbatim>\<open>services/extractor.py\<close>. The
  threshold is the attribute \<^verbatim>\<open>self.confidence_threshold\<close>. The two ways the
  description prints a float (\<^verbatim>\<open>{:.2f}\<close> for the confidence, \<^verbatim>\<open>str\<close> for the
  threshold) are parameters.\<close>

definition describe_low ::
  "(real \<Rightarrow> string) \<Rightarrow> (real \<Rightarrow> string) \<Rightarrow> real \<Rightarrow> ExtractedField \<Rightarrow> string" where
  "describe_low fmt_2f str_float threshold field =
     field_name field @ '': '' @ fmt_2f (confidence field) @ '' (threshold: ''
       @ str_float threshold @ '')''"

fun confidence_loop ::
  "(real \<Rightarrow> string) \<Rightarrow> (real \<Rightarrow> string) \<Rightarrow> real \<Rightarrow> ExtractedField list \<Rightarrow> string list
     \<Rightarrow> string list" where
  "confidence_loop fmt_2f str_float threshold [] low_confidence = low_confidence"
| "confidence_loop fmt_2f str_float threshold (field # rest) low_confidence =
     confidence_loop fmt_2f str_float threshold rest
       (if confidence field < threshold \<and> field_name field \<noteq> ''text_line''
        then low_confidence @ [describe_low fmt_2f str_float threshold field]
        else low_confidence)"

definition check_confidence ::
  "(real \<Rightarrow> string) \<Rightarrow> (real \<Rightarrow> string) \<Rightarrow> real \<Rightarrow> ExtractedField list
     \<Rightarrow> bool \<times> string list" where
  "check_confidence fmt_2f str_float threshold extracted_fields =
     (let low_confidence = confidence_loop fmt_2f str_float threshold extracted_fields []
      in (length low_confidence = 0, low_confidence))"

section \<open>The cheque processor\<close>



text \<open>\<^verbatim>\<open>ExtractedField(field_name=n, value=v, confidence=c)\<close>\<close>

definition new_field :: "string \<Rightarrow> string \<Rightarrow> real \<Rightarrow> ExtractedField" where
  "new_field n v c =
     \<lparr>field_name = n, fvalue = Some v, confidence = c, bounding_box = None, page_number = None\<rparr>"


subsection \<open>The two patterns\<close>

text \<open>The characters U+2446 and U+2447 of \<^verbatim>\<open>MICR_PATTERN\<close>, in UTF-8.\<close>

definition sym_2446 :: string where
  "sym_2446 = [CHR 0xE2, CHR 0x91, CHR 0x86]"

definition sym_2447 :: string where
  "sym_2447 = [CHR 0xE2, CHR 0x91, CHR 0x87]"

text \<open>The pieces of the patterns. Each gives the ways it matches at the start of a
  string, in the order the backtracking matcher tries them (a greedy piece: the longest
  first), as the rest of the string, with the text of the group for a capturing piece.\<close>

text \<open>\<^verbatim>\<open>[c]?\<close>\<close>

definition opt_lit :: "string \<Rightarrow> string \<Rightarrow> string list" where
  "opt_lit lit s = (if starts_with s lit then [drop (length lit) s] else []) @ [s]"

text \<open>\<^verbatim>\<open>(\d{n})\<close>\<close>

definition digits_exact :: "nat \<Rightarrow> string \<Rightarrow> (string \<times> string) list" where
  "digits_exact n s =
     (if n \<le> length s \<and> list_all is_digit (take n s) then [(take n s, drop n s)] else [])"

text \<open>\<^verbatim>\<open>(\d{lo,hi})\<close>\<close>

definition digits_range :: "nat \<Rightarrow> nat \<Rightarrow> string \<Rightarrow> (string \<times> string) list" where
  "digits_range lo hi s =
     (let k = min hi (length (takeWhile is_digit s))
      in map (\<lambda>n. (take n s, drop n s)) (rev [lo..<Suc k]))"

text \<open>\<^verbatim>\<open>\s*\<close> (\<open>lo = 0\<close>) and \<^verbatim>\<open>\s+\<close> (\<open>lo = 1\<close>)\<close>

definition spaces_from :: "nat \<Rightarrow> string \<Rightarrow> string list" where
  "spaces_from lo s =
     (let k = length (takeWhile is_space s) in map (\<lambda>n. drop n s) (rev [lo..<Suc k]))"

text \<open>\<^verbatim>\<open>MICR_PATTERN\<close> at the start of a string: the three groups of every match, in the
  matcher's order. The pattern is its leading optional U+2446, then the rest.\<close>

definition micr_match_tail :: "string \<Rightarrow> (string \<times> string \<times> string) list" where
  "micr_match_tail s1 =
     [(g1, g2, g3).
        (g1, s2) \<leftarrow> digits_exact 6 s1, s3 \<leftarrow> opt_lit sym_2446 s2,
        s4 \<leftarrow> spaces_from 0 s3,
        s5 \<leftarrow> opt_lit sym_2447 s4, (g2, s6) \<leftarrow> digits_exact 9 s5, s7 \<leftarrow> opt_lit sym_2447 s6,
        s8 \<leftarrow> spaces_from 0 s7,
        (g3, s9) \<leftarrow> digits_range 6 12 s8]"




subsection \<open>The MICR extractor and the assembly\<close>








section \<open>The invoice cross-check\<close>

text \<open>\<^verbatim>\<open>services/invoice_processor.py\<close>, \<^verbatim>\<open>models/schemas.py\<close>: \<^verbatim>\<open>InvoiceResult\<close>.
  A line item maps a key to a string or a number.\<close>

datatype item_value = ItemStr string | ItemNum real

record InvoiceResult =
  vendor_name :: "ExtractedField option"
  vendor_address :: "ExtractedField option"
  invoice_number :: "ExtractedField option"
  invoice_date :: "ExtractedField option"
  due_date :: "ExtractedField option"
  subtotal :: "ExtractedField option"
  tax_amount :: "ExtractedField option"
  total_amount :: "ExtractedField option"
  currency :: "ExtractedField option"
  purchase_order :: "ExtractedField option"
  line_items :: "(string \<times> item_value) list list option"

text \<open>What \<^verbatim>\<open>_validate_totals\<close> writes to the log: the warning of a mismatch, with
  the three amounts.\<close>

datatype 'fl log_record = Total_mismatch_warning 'fl 'fl 'fl

text \<open>The floating-point side of the cross-check is a parameter: \<open>to_float\<close> is
  \<^verbatim>\<open>float(s)\<close> (\<open>None\<close> for its \<^verbatim>\<open>ValueError\<close>), and \<open>mismatch subtotal tax total\<close> is
  the comparison \<^verbatim>\<open>abs(subtotal + tax - total) > 0.01\<close> on floats.\<close>

text \<open>\<^verbatim>\<open>float(field.value.replace(",", "").replace("$", ""))\<close>: \<^verbatim>\<open>AttributeError\<close> when
  the value is \<^verbatim>\<open>None\<close>, \<^verbatim>\<open>ValueError\<close> when the text is not a number.\<close>

definition amount_of :: "(string \<Rightarrow> 'fl option) \<Rightarrow> ExtractedField \<Rightarrow> py_error + 'fl" where
  "amount_of to_float field =
     (case fvalue field of
        None \<Rightarrow> Inl AttributeError
      | Some v \<Rightarrow>
          (case to_float (filter (\<lambda>c. c \<noteq> CHR ''$'') (filter (\<lambda>c. c \<noteq> CHR '','') v)) of
             None \<Rightarrow> Inl ValueError
           | Some x \<Rightarrow> Inr x))"

text \<open>The body of the \<^verbatim>\<open>try\<close>: the records it logs, or the exception that leaves it.\<close>

definition validate_totals_try ::
  "(string \<Rightarrow> 'fl option) \<Rightarrow> ('fl \<Rightarrow> 'fl \<Rightarrow> 'fl \<Rightarrow> bool) \<Rightarrow> InvoiceResult
     \<Rightarrow> py_error + 'fl log_record list" where
  "validate_totals_try to_float mismatch result =
     (case (subtotal result, tax_amount result, total_amount result) of
        (Some subtotal_field, Some tax_field, Some total_field) \<Rightarrow>
          (case amount_of to_float subtotal_field of
             Inl e \<Rightarrow> Inl e
           | Inr s \<Rightarrow>
               (case amount_of to_float tax_field of
                  Inl e \<Rightarrow> Inl e
                | Inr t \<Rightarrow>
                    (case amount_of to_float total_field of
                       Inl e \<Rightarrow> Inl e
                     | Inr tot \<Rightarrow>
                         Inr (if mismatch s t tot then [Total_mismatch_warning s t tot]
                              else []))))
      | _ \<Rightarrow> Inr [])"

text \<open>\<^verbatim>\<open>_validate_totals\<close>: the result object as the call leaves it and the log, or the
  exception it raises. The handler takes \<^verbatim>\<open>ValueError\<close>, \<^verbatim>\<open>TypeError\<close> and
  \<^verbatim>\<open>AttributeError\<close>.\<close>

definition validate_totals ::
  "(string \<Rightarrow> 'fl option) \<Rightarrow> ('fl \<Rightarrow> 'fl \<Rightarrow> 'fl \<Rightarrow> bool) \<Rightarrow> InvoiceResult
     \<Rightarrow> py_error + (InvoiceResult \<times> 'fl log_record list)" where
  "validate_totals to_float mismatch result =
     (case validate_totals_try to_float mismatch result of
        Inr logged \<Rightarrow> Inr (result, logged)
      | Inl e \<Rightarrow>
          if e \<in> {ValueError, TypeError, AttributeError} then Inr (result, [])
          else Inl e)"

text \<open>An instance of the parameters on plain decimals, for evaluating examples: digits
  with at most one point among them, read exactly, and the tolerance test on the exact
  values.\<close>

definition decimal_of :: "string \<Rightarrow> real option" where
  "decimal_of s =
     (let whole = takeWhile is_digit s; rest = dropWhile is_digit s;
          frac = (case rest of [] \<Rightarrow> [] | c # cs \<Rightarrow> cs)
      in if (rest = [] \<or> hd rest = CHR ''.'') \<and> list_all is_digit frac \<and> whole @ frac \<noteq> []
         then Some (real (int_of_str (whole @ frac)) / 10 ^ length frac)
         else None)"

definition exact_mismatch :: "real \<Rightarrow> real \<Rightarrow> real \<Rightarrow> bool" where
  "exact_mismatch s t tot = (\<bar>s + t - tot\<bar> > 0.01)"

section \<open>Example inputs\<close>

text \<open>A date for \<open>today\<close>, and a field list on which all six checks fail.\<close>

definition all_fail_fields :: "ExtractedField list" where
  "all_fail_fields =
     [new_field ''customer_name'' ''Mr Sanctioned_Entity_1'' 0.5,
      new_field ''nationality'' ''Iran'' 0.9,
      new_field ''id_expiry'' ''01/02/2020'' 0.9,
      new_field ''politically_exposed'' ''YES'' 0.9]"

definition example_today :: date where
  "example_today = \<lparr>year = 2026, month = 11, day = 3\<rparr>"

text \<open>The fields of a complete, unremarkable KYC form.\<close>

definition kyc_ok_fields :: "ExtractedField list" where
  "kyc_ok_fields =
     [new_field ''customer_name'' ''Ahmed Ali'' 0.9,
      new_field ''date_of_birth'' ''1985-06-15'' 0.9,
      new_field ''nationality'' ''United Arab Emirates'' 0.9,
      new_field ''source_of_funds'' ''Employment salary'' 0.9,
      new_field ''occupation'' ''Software Engineer'' 0.9,
      new_field ''politically_exposed'' ''no'' 0.9]"



text \<open>KYC data of a politically exposed casino owner of a high-risk nationality, with
  all five critical fields present.\<close>

definition pep_casino_example :: kyc_data where
  "pep_casino_example =
     [''customer_name'' \<mapsto> Some ''A. Customer'',
      ''date_of_birth'' \<mapsto> Some ''1980-01-01'',
      ''nationality'' \<mapsto> Some ''Iran'',
      ''source_of_funds'' \<mapsto> Some ''Business'',
      ''occupation'' \<mapsto> Some ''Casino owner'',
      ''politically_exposed'' \<mapsto> Some ''Yes'']"

text \<open>An invoice result with the three amounts given and every other slot empty.\<close>

definition invoice_of :: "string option \<Rightarrow> string option \<Rightarrow> string option \<Rightarrow> InvoiceResult" where
  "invoice_of s t tot =
     \<lparr>vendor_name = None, vendor_address = None, invoice_number = None, invoice_date = None,
      due_date = None,
      subtotal = Some \<lparr>field_name = ''SubTotal'', fvalue = s, confidence = 0.9,
                       bounding_box = None, page_number = None\<rparr>,
      tax_amount = Some \<lparr>field_name = ''TotalTax'', fvalue = t, confidence = 0.9,
                         bounding_box = None, page_number = None\<rparr>,
      total_amount = Some \<lparr>field_name = ''InvoiceTotal'', fvalue = tot, confidence = 0.9,
                           bounding_box = None, page_number = None\<rparr>,
      currency = None, purchase_order = None, line_items = Some []\<rparr>"




section \<open>Properties of the validator\<close>

subsection \<open>What one check does to the lists\<close>

text \<open>Every check returns the lists it was given with one string appended to one of
  them, and its verdict does not depend on the lists.\<close>

lemma check_field_completeness_shape:
  "\<exists>m. check_field_completeness fm p f =
     (fst (check_field_completeness fm [] []),
      p @ entry_if (fst (check_field_completeness fm [] [])) m,
      f @ entry_if (\<not> fst (check_field_completeness fm [] [])) m)"
  by (simp add: check_field_completeness_def Let_def entry_if_def)

lemma try_formats_shape:
  "\<exists>m. try_formats today v fmts p f =
     (fst (try_formats today v fmts [] []),
      p @ entry_if (fst (try_formats today v fmts [] [])) m,
      f @ entry_if (\<not> fst (try_formats today v fmts [] [])) m)"
proof (induction fmts)
  case Nil
  show ?case by (simp add: entry_if_def)
next
  case (Cons fmt fmts)
  show ?case
  proof (cases "strptime v fmt")
    case (Inl e)
    with Cons show ?thesis by simp
  next
    case (Inr d)
    then show ?thesis by (simp add: entry_if_def)
  qed
qed

lemma check_id_validity_shape:
  "\<exists>m. check_id_validity today fm p f =
     (fst (check_id_validity today fm [] []),
      p @ entry_if (fst (check_id_validity today fm [] [])) m,
      f @ entry_if (\<not> fst (check_id_validity today fm [] [])) m)"
proof (cases "py_or (fm ''expiry_date'') (fm ''id_expiry'')")
  case None
  then show ?thesis by (simp add: check_id_validity_def entry_if_def)
next
  case (Some ef)
  show ?thesis
  proof (cases "fvalue ef")
    case None
    with Some show ?thesis by (simp add: check_id_validity_def entry_if_def)
  next
    case v: (Some v)
    show ?thesis
    proof (cases "v = []")
      case True
      with Some v show ?thesis by (simp add: check_id_validity_def entry_if_def)
    next
      case False
      with Some v show ?thesis
        using try_formats_shape [of today v "[fmt_ymd, fmt_dmy, fmt_mdy]" p f]
        by (simp add: check_id_validity_def del: try_formats.simps)
    qed
  qed
qed

lemma check_sanctions_shape:
  "\<exists>m. check_sanctions fm p f fl =
     (fst (check_sanctions fm [] [] []),
      p @ entry_if (fst (check_sanctions fm [] [] [])) m,
      f @ entry_if (\<not> fst (check_sanctions fm [] [] [])) m,
      fl @ entry_if (\<not> fst (check_sanctions fm [] [] [])) ''SANCTIONS_HIT'')"
  by (simp add: check_sanctions_def entry_if_def split: option.split)

lemma check_jurisdiction_shape:
  "\<exists>m g. g \<in> {''FATF_HIGH_RISK'', ''FATF_MONITORING''} \<and> check_jurisdiction fm p f fl =
     (fst (check_jurisdiction fm [] [] []),
      p @ entry_if (fst (check_jurisdiction fm [] [] [])) m,
      f @ entry_if (\<not> fst (check_jurisdiction fm [] [] [])) m,
      fl @ entry_if (\<not> fst (check_jurisdiction fm [] [] [])) g)"
proof (cases "fm ''nationality''")
  case None
  then show ?thesis by (auto simp add: check_jurisdiction_def entry_if_def)
next
  case (Some ef)
  show ?thesis
  proof (cases "fvalue ef")
    case None
    with Some show ?thesis by (auto simp add: check_jurisdiction_def entry_if_def)
  next
    case v: (Some v)
    consider "v = []" | "v \<noteq> []" "strip v \<in> set FATF_HIGH_RISK"
      | "v \<noteq> []" "strip v \<notin> set FATF_HIGH_RISK" "strip v \<in> set FATF_INCREASED_MONITORING"
      | "v \<noteq> []" "strip v \<notin> set FATF_HIGH_RISK" "strip v \<notin> set FATF_INCREASED_MONITORING"
      by blast
    then show ?thesis
    proof cases
      case 1
      with Some v show ?thesis by (auto simp add: check_jurisdiction_def entry_if_def)
    next
      case 2
      with Some v show ?thesis by (auto simp add: check_jurisdiction_def entry_if_def)
    next
      case 3
      with Some v show ?thesis by (auto simp add: check_jurisdiction_def entry_if_def)
    next
      case 4
      with Some v show ?thesis by (auto simp add: check_jurisdiction_def entry_if_def)
    qed
  qed
qed

lemma check_pep_status_shape:
  "\<exists>m. check_pep_status fm p f fl =
     (fst (check_pep_status fm [] [] []),
      p @ entry_if (fst (check_pep_status fm [] [] [])) m,
      f @ entry_if (\<not> fst (check_pep_status fm [] [] [])) m,
      fl @ entry_if (\<not> fst (check_pep_status fm [] [] [])) ''PEP_IDENTIFIED'')"
  by (simp add: check_pep_status_def entry_if_def split: option.split)

lemma check_confidence_levels_shape:
  "\<exists>m. check_confidence_levels fs p f =
     (fst (check_confidence_levels fs [] []),
      p @ entry_if (fst (check_confidence_levels fs [] [])) m,
      f @ entry_if (\<not> fst (check_confidence_levels fs [] [])) m)"
  by (simp add: check_confidence_levels_def Let_def entry_if_def)


lemma validate_kyc_result:
  assumes fm: "fm = build_field_map fs"
    and v1: "v1 = fst (check_field_completeness fm [] [])"
    and v2: "v2 = fst (check_id_validity today fm [] [])"
    and v3: "v3 = fst (check_sanctions fm [] [] [])"
    and v4: "v4 = fst (check_jurisdiction fm [] [] [])"
    and v5: "v5 = fst (check_pep_status fm [] [] [])"
    and v6: "v6 = fst (check_confidence_levels fs [] [])"
    and s: "s = min (penalty v1 0.15 + penalty v2 0.1 + penalty v3 0.5 + penalty v4 0.3
                       + penalty v5 0.25 + penalty v6 0.1) 1"
  shows "\<exists>r m1 m2 m3 m4 m5 m6 g.
     validate_kyc today fs dt = Inr r \<and>
     g \<in> {''FATF_HIGH_RISK'', ''FATF_MONITORING''} \<and>
     status r = (if v1 \<and> v2 \<and> v3 \<and> v4 \<and> v5 \<and> v6 then PASSED
                 else if s \<ge> 0.5 then FAILED else NEEDS_MANUAL_REVIEW) \<and>
     checks_passed r = entry_if v1 m1 @ entry_if v2 m2 @ entry_if v3 m3 @ entry_if v4 m4
                          @ entry_if v5 m5 @ entry_if v6 m6 \<and>
     checks_failed r = entry_if (\<not> v1) m1 @ entry_if (\<not> v2) m2 @ entry_if (\<not> v3) m3
                          @ entry_if (\<not> v4) m4 @ entry_if (\<not> v5) m5 @ entry_if (\<not> v6) m6 \<and>
     risk_score r = s \<and>
     flags r = entry_if (\<not> v3) ''SANCTIONS_HIT'' @ entry_if (\<not> v4) g
                 @ entry_if (\<not> v5) ''PEP_IDENTIFIED'' \<and>
     recommendation r =
       (if v1 \<and> v2 \<and> v3 \<and> v4 \<and> v5 \<and> v6
        then ''APPROVED '' @ em_dash @ '' All compliance checks passed.''
        else if s \<ge> 0.5
        then ''REJECT '' @ em_dash @ '' High-risk indicators detected. Escalate to compliance.''
        else ''REVIEW '' @ em_dash @ '' Some checks failed. Manual review required by compliance officer.'')"
proof -
  obtain m1 where c1: "check_field_completeness fm [] [] = (v1, entry_if v1 m1, entry_if (\<not> v1) m1)"
    using check_field_completeness_shape [of fm "[]" "[]"] unfolding v1 by auto
  let ?p1 = "entry_if v1 m1" and ?f1 = "entry_if (\<not> v1) m1"
  obtain m2 where c2: "check_id_validity today fm ?p1 ?f1
      = (v2, ?p1 @ entry_if v2 m2, ?f1 @ entry_if (\<not> v2) m2)"
    using check_id_validity_shape [of today fm ?p1 ?f1] unfolding v2 by auto
  let ?p2 = "?p1 @ entry_if v2 m2" and ?f2 = "?f1 @ entry_if (\<not> v2) m2"
  obtain m3 where c3: "check_sanctions fm ?p2 ?f2 []
      = (v3, ?p2 @ entry_if v3 m3, ?f2 @ entry_if (\<not> v3) m3, entry_if (\<not> v3) ''SANCTIONS_HIT'')"
    using check_sanctions_shape [of fm ?p2 ?f2 "[]"] unfolding v3 by auto
  let ?p3 = "?p2 @ entry_if v3 m3" and ?f3 = "?f2 @ entry_if (\<not> v3) m3"
  let ?g3 = "entry_if (\<not> v3) ''SANCTIONS_HIT''"
  obtain m4 g where g: "g \<in> {''FATF_HIGH_RISK'', ''FATF_MONITORING''}"
    and c4: "check_jurisdiction fm ?p3 ?f3 ?g3
      = (v4, ?p3 @ entry_if v4 m4, ?f3 @ entry_if (\<not> v4) m4, ?g3 @ entry_if (\<not> v4) g)"
    using check_jurisdiction_shape [of fm ?p3 ?f3 ?g3] unfolding v4 by auto
  let ?p4 = "?p3 @ entry_if v4 m4" and ?f4 = "?f3 @ entry_if (\<not> v4) m4"
  let ?g4 = "?g3 @ entry_if (\<not> v4) g"
  obtain m5 where c5: "check_pep_status fm ?p4 ?f4 ?g4
      = (v5, ?p4 @ entry_if v5 m5, ?f4 @ entry_if (\<not> v5) m5,
         ?g4 @ entry_if (\<not> v5) ''PEP_IDENTIFIED'')"
    using check_pep_status_shape [of fm ?p4 ?f4 ?g4] unfolding v5 by auto
  let ?p5 = "?p4 @ entry_if v5 m5" and ?f5 = "?f4 @ entry_if (\<not> v5) m5"
  obtain m6 where c6: "check_confidence_levels fs ?p5 ?f5
      = (v6, ?p5 @ entry_if v6 m6, ?f5 @ entry_if (\<not> v6) m6)"
    using check_confidence_levels_shape [of fs ?p5 ?f5] unfolding v6 by auto
  have failed_empty: "(?f5 @ entry_if (\<not> v6) m6 = []) = (v1 \<and> v2 \<and> v3 \<and> v4 \<and> v5 \<and> v6)"
    by (simp add: entry_if_def)
  let ?r = "\<lparr>status = (if v1 \<and> v2 \<and> v3 \<and> v4 \<and> v5 \<and> v6 then PASSED
                 else if s \<ge> 0.5 then FAILED else NEEDS_MANUAL_REVIEW),
        checks_passed = ?p5 @ entry_if v6 m6,
        checks_failed = ?f5 @ entry_if (\<not> v6) m6,
        risk_score = s,
        flags = ?g4 @ entry_if (\<not> v5) ''PEP_IDENTIFIED'',
        recommendation =
       (if v1 \<and> v2 \<and> v3 \<and> v4 \<and> v5 \<and> v6
        then ''APPROVED '' @ em_dash @ '' All compliance checks passed.''
        else if s \<ge> 0.5
        then ''REJECT '' @ em_dash @ '' High-risk indicators detected. Escalate to compliance.''
        else ''REVIEW '' @ em_dash @ '' Some checks failed. Manual review required by compliance officer.'')\<rparr>"
  have "validate_kyc today fs dt = Inr ?r"
    unfolding validate_kyc_def fm[symmetric]
    apply (simp only: Let_def c1 prod.case c2 c3 c4 c5 c6 failed_empty)
    apply (cases v1; cases v2; cases v3; cases v4; cases v5; cases v6;
           simp add: new_ValidationResult_def s penalty_def entry_if_def)
    done
  then show ?thesis
    using g
    apply -
    apply (rule exI[of _ ?r], rule exI[of _ m1], rule exI[of _ m2], rule exI[of _ m3],
           rule exI[of _ m4], rule exI[of _ m5], rule exI[of _ m6], rule exI[of _ g])
    apply simp
    done
qed


subsection \<open>The ID validity check in terms of the first format that parses\<close>

lemma try_formats_first_parse:
  "try_formats today v fmts p f =
     (case first_parse v fmts of
        None \<Rightarrow>
          (True, p @ [''ID expiry date format unrecognized '' @ em_dash @ '' manual check needed''], f)
      | Some d \<Rightarrow>
          if date_less d today then (False, p, f @ [''ID document expired: '' @ v])
          else (True, p @ [''ID document is valid and not expired''], f))"
  by (induction fmts) (simp_all split: sum.split)

lemma check_id_validity_cases:
  "check_id_validity today fm p f =
     (case expiry_value fm of
        None \<Rightarrow> (True, p @ [''ID expiry check skipped '' @ em_dash @ '' no expiry field found''], f)
      | Some v \<Rightarrow>
          (case first_parse v [fmt_ymd, fmt_dmy, fmt_mdy] of
             None \<Rightarrow>
               (True, p @ [''ID expiry date format unrecognized '' @ em_dash @ '' manual check needed''], f)
           | Some d \<Rightarrow>
               if date_less d today then (False, p, f @ [''ID document expired: '' @ v])
               else (True, p @ [''ID document is valid and not expired''], f)))"
  unfolding check_id_validity_def expiry_value_def
  by (simp add: try_formats_first_parse del: try_formats.simps first_parse.simps split: option.split)

lemma check_id_validity_verdict:
  "fst (check_id_validity today fm p f) = (\<not> id_expired today fm)"
  unfolding check_id_validity_cases id_expired_def
  by (simp split: option.split)

lemma sanctions_hit_iff:
  "sanctions_hit n ks = (\<exists>k\<in>set ks. is_substring (lower k) n)"
  by (induction ks) auto

subsection \<open>The verdict\<close>

text \<open>
  Claim C1. For every list of extracted fields and every document type,
  \<^verbatim>\<open>validate_kyc\<close> returns a result (it does not raise) whose status is \<open>PASSED\<close> if
  and only if \<open>checks_failed\<close> is empty; when \<open>checks_failed\<close> is not empty the status is
  \<open>FAILED\<close> if the risk score is at least 0.5 and \<open>NEEDS_MANUAL_REVIEW\<close> otherwise; and
  the recommendation is the approve, the reject-and-escalate or the review text of the
  same branch.
\<close>

theorem validate_kyc_verdict:
  "\<exists>r. validate_kyc today fs dt = Inr r \<and>
     (status r = PASSED) = (checks_failed r = []) \<and>
     status r = (if checks_failed r = [] then PASSED
                 else if risk_score r \<ge> 0.5 then FAILED else NEEDS_MANUAL_REVIEW) \<and>
     recommendation r =
       (if checks_failed r = []
        then ''APPROVED '' @ em_dash @ '' All compliance checks passed.''
        else if risk_score r \<ge> 0.5
        then ''REJECT '' @ em_dash @ '' High-risk indicators detected. Escalate to compliance.''
        else ''REVIEW '' @ em_dash @ '' Some checks failed. Manual review required by compliance officer.'')"
proof -
  define fm where "fm = build_field_map fs"
  define v1 where "v1 = fst (check_field_completeness fm [] [])"
  define v2 where "v2 = fst (check_id_validity today fm [] [])"
  define v3 where "v3 = fst (check_sanctions fm [] [] [])"
  define v4 where "v4 = fst (check_jurisdiction fm [] [] [])"
  define v5 where "v5 = fst (check_pep_status fm [] [] [])"
  define v6 where "v6 = fst (check_confidence_levels fs [] [])"
  define s where "s = min (penalty v1 0.15 + penalty v2 0.1 + penalty v3 0.5 + penalty v4 0.3
                       + penalty v5 0.25 + penalty v6 0.1) 1"
  from validate_kyc_result [OF fm_def v1_def v2_def v3_def v4_def v5_def v6_def s_def, of dt]
  obtain r m1 m2 m3 m4 m5 m6 where r: "validate_kyc today fs dt = Inr r"
    and st: "status r = (if v1 \<and> v2 \<and> v3 \<and> v4 \<and> v5 \<and> v6 then PASSED
                 else if s \<ge> 0.5 then FAILED else NEEDS_MANUAL_REVIEW)"
    and cf: "checks_failed r = entry_if (\<not> v1) m1 @ entry_if (\<not> v2) m2 @ entry_if (\<not> v3) m3
                          @ entry_if (\<not> v4) m4 @ entry_if (\<not> v5) m5 @ entry_if (\<not> v6) m6"
    and rs: "risk_score r = s"
    and rc: "recommendation r =
       (if v1 \<and> v2 \<and> v3 \<and> v4 \<and> v5 \<and> v6
        then ''APPROVED '' @ em_dash @ '' All compliance checks passed.''
        else if s \<ge> 0.5
        then ''REJECT '' @ em_dash @ '' High-risk indicators detected. Escalate to compliance.''
        else ''REVIEW '' @ em_dash @ '' Some checks failed. Manual review required by compliance officer.'')"
    by blast
  have empty: "(checks_failed r = []) = (v1 \<and> v2 \<and> v3 \<and> v4 \<and> v5 \<and> v6)"
    by (simp add: cf entry_if_def)
  show ?thesis
    apply (rule exI[of _ r])
    apply (simp only: r empty st rc rs)
    apply simp
    done
qed

subsection \<open>The risk score\<close>

text \<open>
  Claim C2. For every list of extracted fields and every document type, the risk score of
  the result of \<^verbatim>\<open>validate_kyc\<close> lies between 0 and 1: it is the sum of the deltas of
  the failed checks (0.15, 0.1, 0.5, 0.3, 0.25, 0.1; 1.4 when all fail), cut off at 1, and
  it is never negative. The constructor of the result, which refuses a score outside this
  range, therefore never raises.
\<close>

theorem validate_kyc_risk_score_range:
  "\<exists>r. validate_kyc today fs dt = Inr r \<and> 0 \<le> risk_score r \<and> risk_score r \<le> 1 \<and>
     risk_score r =
       (let fm = build_field_map fs
        in min (penalty (fst (check_field_completeness fm [] [])) 0.15
                + penalty (fst (check_id_validity today fm [] [])) 0.1
                + penalty (fst (check_sanctions fm [] [] [])) 0.5
                + penalty (fst (check_jurisdiction fm [] [] [])) 0.3
                + penalty (fst (check_pep_status fm [] [] [])) 0.25
                + penalty (fst (check_confidence_levels fs [] [])) 0.1) 1)"
proof -
  define fm where "fm = build_field_map fs"
  define v1 where "v1 = fst (check_field_completeness fm [] [])"
  define v2 where "v2 = fst (check_id_validity today fm [] [])"
  define v3 where "v3 = fst (check_sanctions fm [] [] [])"
  define v4 where "v4 = fst (check_jurisdiction fm [] [] [])"
  define v5 where "v5 = fst (check_pep_status fm [] [] [])"
  define v6 where "v6 = fst (check_confidence_levels fs [] [])"
  define s where "s = min (penalty v1 0.15 + penalty v2 0.1 + penalty v3 0.5 + penalty v4 0.3
                       + penalty v5 0.25 + penalty v6 0.1) 1"
  from validate_kyc_result [OF fm_def v1_def v2_def v3_def v4_def v5_def v6_def s_def, of dt]
  obtain r where r: "validate_kyc today fs dt = Inr r" and rs: "risk_score r = s"
    by blast
  have "0 \<le> s" "s \<le> 1"
    by (simp_all add: s_def penalty_def)
  with r rs show ?thesis
    unfolding s_def v1_def v2_def v3_def v4_def v5_def v6_def fm_def Let_def
    by (intro exI[of _ r]) simp
qed


theorem validate_kyc_risk_score_range_witness:
  "\<exists>r. validate_kyc example_today all_fail_fields ''kyc_form'' = Inr r \<and>
     0 \<le> risk_score r \<and> risk_score r \<le> 1 \<and> risk_score r = 1 \<and> length (checks_failed r) = 6"
proof -
  have e: "(case validate_kyc example_today all_fail_fields ''kyc_form'' of
              Inr r \<Rightarrow> risk_score r = 1 \<and> length (checks_failed r) = 6
            | Inl e \<Rightarrow> False)"
    by code_simp
  from validate_kyc_risk_score_range [of example_today all_fail_fields "''kyc_form''"]
  obtain r where r: "validate_kyc example_today all_fail_fields ''kyc_form'' = Inr r"
    and "0 \<le> risk_score r" "risk_score r \<le> 1"
    by blast
  with e show ?thesis by simp
qed

subsection \<open>The two lists of checks\<close>


subsection \<open>The flags\<close>

text \<open>
  Claim C10. In every result of \<^verbatim>\<open>validate_kyc\<close> the flags are among
  \<open>SANCTIONS_HIT\<close>, \<open>FATF_HIGH_RISK\<close>, \<open>FATF_MONITORING\<close> and \<open>PEP_IDENTIFIED\<close>, no
  flag occurs twice, \<open>FATF_HIGH_RISK\<close> and \<open>FATF_MONITORING\<close> do not occur together, and
  when there is a flag there is a failed check.
\<close>

theorem validate_kyc_flags:
  "\<exists>r. validate_kyc today fs dt = Inr r \<and>
     set (flags r) \<subseteq> {''SANCTIONS_HIT'', ''FATF_HIGH_RISK'', ''FATF_MONITORING'', ''PEP_IDENTIFIED''} \<and>
     distinct (flags r) \<and>
     \<not> (''FATF_HIGH_RISK'' \<in> set (flags r) \<and> ''FATF_MONITORING'' \<in> set (flags r)) \<and>
     (flags r \<noteq> [] \<longrightarrow> checks_failed r \<noteq> [])"
proof -
  define fm where "fm = build_field_map fs"
  define v1 where "v1 = fst (check_field_completeness fm [] [])"
  define v2 where "v2 = fst (check_id_validity today fm [] [])"
  define v3 where "v3 = fst (check_sanctions fm [] [] [])"
  define v4 where "v4 = fst (check_jurisdiction fm [] [] [])"
  define v5 where "v5 = fst (check_pep_status fm [] [] [])"
  define v6 where "v6 = fst (check_confidence_levels fs [] [])"
  define s where "s = min (penalty v1 0.15 + penalty v2 0.1 + penalty v3 0.5 + penalty v4 0.3
                       + penalty v5 0.25 + penalty v6 0.1) 1"
  from validate_kyc_result [OF fm_def v1_def v2_def v3_def v4_def v5_def v6_def s_def, of dt]
  obtain r m1 m2 m3 m4 m5 m6 g where r: "validate_kyc today fs dt = Inr r"
    and g: "g \<in> {''FATF_HIGH_RISK'', ''FATF_MONITORING''}"
    and cf: "checks_failed r = entry_if (\<not> v1) m1 @ entry_if (\<not> v2) m2 @ entry_if (\<not> v3) m3
                          @ entry_if (\<not> v4) m4 @ entry_if (\<not> v5) m5 @ entry_if (\<not> v6) m6"
    and fl: "flags r = entry_if (\<not> v3) ''SANCTIONS_HIT'' @ entry_if (\<not> v4) g
                 @ entry_if (\<not> v5) ''PEP_IDENTIFIED''"
    by blast
  from g consider "g = ''FATF_HIGH_RISK''" | "g = ''FATF_MONITORING''" by blast
  then have props: "set (flags r) \<subseteq> {''SANCTIONS_HIT'', ''FATF_HIGH_RISK'', ''FATF_MONITORING'', ''PEP_IDENTIFIED''} \<and>
     distinct (flags r) \<and>
     \<not> (''FATF_HIGH_RISK'' \<in> set (flags r) \<and> ''FATF_MONITORING'' \<in> set (flags r)) \<and>
     (flags r \<noteq> [] \<longrightarrow> checks_failed r \<noteq> [])"
  proof cases
    case 1
    show ?thesis
      by (cases v3; cases v4; cases v5) (simp_all add: fl cf 1 entry_if_def)
  next
    case 2
    show ?thesis
      by (cases v3; cases v4; cases v5) (simp_all add: fl cf 2 entry_if_def)
  qed
  with r show ?thesis by blast
qed

theorem validate_kyc_flags_witness:
  "\<exists>r. validate_kyc example_today all_fail_fields ''kyc_form'' = Inr r \<and>
     flags r = [''SANCTIONS_HIT'', ''FATF_HIGH_RISK'', ''PEP_IDENTIFIED''] \<and>
     distinct (flags r) \<and> checks_failed r \<noteq> []"
proof -
  have e: "(case validate_kyc example_today all_fail_fields ''kyc_form'' of
              Inr r \<Rightarrow> flags r = [''SANCTIONS_HIT'', ''FATF_HIGH_RISK'', ''PEP_IDENTIFIED'']
            | Inl e \<Rightarrow> False)"
    by code_simp
  from validate_kyc_flags [of example_today all_fail_fields "''kyc_form''"]
  obtain r where r: "validate_kyc example_today all_fail_fields ''kyc_form'' = Inr r"
    and "distinct (flags r)" and "flags r \<noteq> [] \<longrightarrow> checks_failed r \<noteq> []"
    by blast
  with e show ?thesis by auto
qed

subsection \<open>A clean form passes\<close>

text \<open>
  Claim C3. Take a field list in whose field map (a later field of a name replacing an
  earlier one) all five required KYC fields are present with non-empty values, the customer
  name contains no sanctions keyword (case-insensitively), the nationality, stripped of
  surrounding blanks, is on neither FATF list, \<open>politically_exposed\<close> is absent or is not
  \<open>yes\<close>, \<open>true\<close> or \<open>1\<close> in any casing, an expiry date, if it parses, is not before today,
  and every field of a required name has confidence at least 0.80. Then \<^verbatim>\<open>validate_kyc\<close>
  returns status \<open>PASSED\<close>, an empty \<open>checks_failed\<close> and a risk score below 0.2.
\<close>

theorem validate_kyc_clean_passes:
  assumes required:
      "\<forall>n\<in>set REQUIRED_KYC_FIELDS.
         \<exists>fld v. build_field_map fs n = Some fld \<and> fvalue fld = Some v \<and> v \<noteq> []"
    and name:
      "\<forall>fld v. build_field_map fs ''customer_name'' = Some fld \<and> fvalue fld = Some v \<longrightarrow>
         (\<forall>k\<in>set SANCTIONS_KEYWORDS. \<not> is_substring (lower k) (lower v))"
    and nationality:
      "\<forall>fld v. build_field_map fs ''nationality'' = Some fld \<and> fvalue fld = Some v \<longrightarrow>
         strip v \<notin> set FATF_HIGH_RISK \<union> set FATF_INCREASED_MONITORING"
    and pep:
      "\<forall>fld v. build_field_map fs ''politically_exposed'' = Some fld \<and> fvalue fld = Some v \<longrightarrow>
         lower v \<notin> {''yes'', ''true'', ''1''}"
    and expiry:
      "\<forall>v d. expiry_value (build_field_map fs) = Some v
               \<and> first_parse v [fmt_ymd, fmt_dmy, fmt_mdy] = Some d \<longrightarrow>
         \<not> date_less d today"
    and conf:
      "\<forall>fld\<in>set fs. field_name fld \<in> set REQUIRED_KYC_FIELDS \<longrightarrow> confidence fld \<ge> 0.80"
  shows "\<exists>r. validate_kyc today fs dt = Inr r \<and> status r = PASSED \<and> checks_failed r = []
           \<and> risk_score r < 0.2"
proof -
  define fm where "fm = build_field_map fs"
  define v1 where "v1 = fst (check_field_completeness fm [] [])"
  define v2 where "v2 = fst (check_id_validity today fm [] [])"
  define v3 where "v3 = fst (check_sanctions fm [] [] [])"
  define v4 where "v4 = fst (check_jurisdiction fm [] [] [])"
  define v5 where "v5 = fst (check_pep_status fm [] [] [])"
  define v6 where "v6 = fst (check_confidence_levels fs [] [])"
  define s where "s = min (penalty v1 0.15 + penalty v2 0.1 + penalty v3 0.5 + penalty v4 0.3
                       + penalty v5 0.25 + penalty v6 0.1) 1"
  have "filter (field_missing fm) REQUIRED_KYC_FIELDS = []"
    using required unfolding fm_def[symmetric]
    by (auto simp: filter_empty_conv field_missing_def)
  then have v1: v1
    by (simp add: v1_def check_field_completeness_def)
  have "\<not> id_expired today fm"
    using expiry unfolding fm_def[symmetric] id_expired_def
    by (auto split: option.split)
  then have v2: v2
    by (simp add: v2_def check_id_validity_verdict)
  obtain nf nv where nf: "fm ''customer_name'' = Some nf" "fvalue nf = Some nv" "nv \<noteq> []"
    using required unfolding fm_def[symmetric] by (auto simp: REQUIRED_KYC_FIELDS_def)
  have "\<not> sanctions_hit (lower nv) SANCTIONS_KEYWORDS"
    using name nf unfolding fm_def[symmetric] by (simp add: sanctions_hit_iff)
  then have v3: v3
    using nf by (simp add: v3_def check_sanctions_def)
  obtain cf cv where cf: "fm ''nationality'' = Some cf" "fvalue cf = Some cv" "cv \<noteq> []"
    using required unfolding fm_def[symmetric] by (auto simp: REQUIRED_KYC_FIELDS_def)
  have "strip cv \<notin> set FATF_HIGH_RISK" "strip cv \<notin> set FATF_INCREASED_MONITORING"
    using nationality cf unfolding fm_def[symmetric] by auto
  then have v4: v4
    using cf by (simp add: v4_def check_jurisdiction_def)
  have v5: v5
  proof (cases "fm ''politically_exposed''")
    case None
    then show ?thesis by (simp add: v5_def check_pep_status_def)
  next
    case (Some pf)
    show ?thesis
    proof (cases "fvalue pf")
      case None
      with Some show ?thesis by (simp add: v5_def check_pep_status_def)
    next
      case pv: (Some pv)
      have "lower pv \<notin> {''yes'', ''true'', ''1''}"
        using pep Some pv unfolding fm_def[symmetric] by blast
      with Some pv show ?thesis by (simp add: v5_def check_pep_status_def)
    qed
  qed
  have "filter (\<lambda>f. confidence f < 0.80 \<and> field_name f \<in> set REQUIRED_KYC_FIELDS) fs = []"
    using conf by (auto simp: filter_empty_conv)
  then have v6: v6
    by (simp add: v6_def check_confidence_levels_def)
  from validate_kyc_result [OF fm_def v1_def v2_def v3_def v4_def v5_def v6_def s_def, of dt]
  obtain r m1 m2 m3 m4 m5 m6 where r: "validate_kyc today fs dt = Inr r"
    and st: "status r = (if v1 \<and> v2 \<and> v3 \<and> v4 \<and> v5 \<and> v6 then PASSED
                 else if s \<ge> 0.5 then FAILED else NEEDS_MANUAL_REVIEW)"
    and cf: "checks_failed r = entry_if (\<not> v1) m1 @ entry_if (\<not> v2) m2 @ entry_if (\<not> v3) m3
                          @ entry_if (\<not> v4) m4 @ entry_if (\<not> v5) m5 @ entry_if (\<not> v6) m6"
    and rs: "risk_score r = s"
    by blast
  have "status r = PASSED" "checks_failed r = []" "risk_score r < 0.2"
    using v1 v2 v3 v4 v5 v6 by (simp_all add: st cf rs s_def penalty_def entry_if_def)
  with r show ?thesis by blast
qed

theorem validate_kyc_clean_passes_witness:
  "\<exists>r. validate_kyc example_today kyc_ok_fields ''kyc_form'' = Inr r \<and> status r = PASSED
       \<and> checks_failed r = [] \<and> risk_score r < 0.2"
proof (rule validate_kyc_clean_passes)
  have fm: "build_field_map kyc_ok_fields =
      [''customer_name'' \<mapsto> new_field ''customer_name'' ''Ahmed Ali'' 0.9,
       ''date_of_birth'' \<mapsto> new_field ''date_of_birth'' ''1985-06-15'' 0.9,
       ''nationality'' \<mapsto> new_field ''nationality'' ''United Arab Emirates'' 0.9,
       ''source_of_funds'' \<mapsto> new_field ''source_of_funds'' ''Employment salary'' 0.9,
       ''occupation'' \<mapsto> new_field ''occupation'' ''Software Engineer'' 0.9,
       ''politically_exposed'' \<mapsto> new_field ''politically_exposed'' ''no'' 0.9]"
    by (simp add: build_field_map_def kyc_ok_fields_def new_field_def)
  show "\<forall>n\<in>set REQUIRED_KYC_FIELDS.
         \<exists>fld v. build_field_map kyc_ok_fields n = Some fld \<and> fvalue fld = Some v \<and> v \<noteq> []"
    by (simp add: fm REQUIRED_KYC_FIELDS_def new_field_def)
  have "\<not> sanctions_hit (lower ''Ahmed Ali'') SANCTIONS_KEYWORDS"
    by code_simp
  then show "\<forall>fld v. build_field_map kyc_ok_fields ''customer_name'' = Some fld \<and> fvalue fld = Some v \<longrightarrow>
         (\<forall>k\<in>set SANCTIONS_KEYWORDS. \<not> is_substring (lower k) (lower v))"
    by (auto simp add: fm new_field_def sanctions_hit_iff)
  have "strip ''United Arab Emirates'' \<notin> set FATF_HIGH_RISK \<union> set FATF_INCREASED_MONITORING"
    by code_simp
  then show "\<forall>fld v. build_field_map kyc_ok_fields ''nationality'' = Some fld \<and> fvalue fld = Some v \<longrightarrow>
         strip v \<notin> set FATF_HIGH_RISK \<union> set FATF_INCREASED_MONITORING"
    by (auto simp add: fm new_field_def)
  have "lower ''no'' \<notin> {''yes'', ''true'', ''1''}"
    by code_simp
  then show "\<forall>fld v. build_field_map kyc_ok_fields ''politically_exposed'' = Some fld \<and> fvalue fld = Some v \<longrightarrow>
         lower v \<notin> {''yes'', ''true'', ''1''}"
    by (auto simp add: fm new_field_def)
  show "\<forall>v d. expiry_value (build_field_map kyc_ok_fields) = Some v
               \<and> first_parse v [fmt_ymd, fmt_dmy, fmt_mdy] = Some d \<longrightarrow>
         \<not> date_less d example_today"
    by (simp add: fm expiry_value_def)
  show "\<forall>fld\<in>set kyc_ok_fields. field_name fld \<in> set REQUIRED_KYC_FIELDS \<longrightarrow> confidence fld \<ge> 0.80"
    by (simp add: kyc_ok_fields_def new_field_def)
qed

subsection \<open>The ID validity check\<close>



section \<open>Properties of the KYC pre-screen\<close>

lemma occupation_loop_eq:
  "occupation_loop occ hs sc = sc + (if list_ex (\<lambda>h. is_substring h occ) hs then 0.3 else 0)"
  by (induction hs) simp_all

lemma missing_loop_eq:
  "missing_loop d ks sc = sc + 0.1 * real (length (filter (\<lambda>k. \<not> truthy (kyc_get d k)) ks))"
  by (induction ks arbitrary: sc) (simp_all add: missing_field_penalty_def algebra_simps)

text \<open>
  Claim C4. For every KYC data mapping, \<^verbatim>\<open>_calculate_risk_rating\<close> computes exactly the
  pre-screen score: from 0, plus 0.4 if the nationality (stripped) is in the high-risk
  country list, plus 0.3 once if the occupation (in lower case) contains one of the
  high-risk occupation strings; if \<open>politically_exposed\<close> is \<open>yes\<close>, \<open>true\<close> or \<open>1\<close> in
  any casing the sum so far is doubled and 0.3 is added; plus 0.1 for each of the five
  critical fields that is absent, null or empty. The score is not cut off at 1: high-risk
  nationality, high-risk occupation and PEP give 1.7. The rating is \<open>very_high\<close> from 0.7,
  \<open>high\<close> from 0.4, \<open>medium\<close> from 0.2 and \<open>low\<close> below.
\<close>

theorem calculate_risk_rating_prescreen:
  "calculate_risk_score d = prescreen_score_spec d \<and>
   calculate_risk_rating d = rating_spec (prescreen_score_spec d) \<and>
   calculate_risk_score pep_casino_example = 1.7 \<and>
   calculate_risk_rating pep_casino_example = ''very_high''"
proof -
  have score: "calculate_risk_score d = prescreen_score_spec d" for d
    unfolding calculate_risk_score_def prescreen_score_spec_def Let_def
    by (simp add: occupation_loop_eq missing_loop_eq pep_risk_multiplier_def)
  have rating: "calculate_risk_rating d = rating_spec (prescreen_score_spec d)" for d
    unfolding calculate_risk_rating_def rating_spec_def Let_def score ..
  have ex: "prescreen_score_spec pep_casino_example = 1.7"
    by code_simp
  have "rating_spec (prescreen_score_spec pep_casino_example) = ''very_high''"
    unfolding ex by (simp add: rating_spec_def)
  with score rating ex show ?thesis by (simp only: simp_thms)
qed

section \<open>Properties of the confidence gate\<close>

lemma confidence_loop_eq:
  "confidence_loop fmt_2f str_float threshold fs low =
     low @ map (describe_low fmt_2f str_float threshold)
             (filter (\<lambda>f. confidence f < threshold \<and> field_name f \<noteq> ''text_line'') fs)"
  by (induction fs arbitrary: low) simp_all

text \<open>
  Claim C9. \<^verbatim>\<open>check_confidence\<close> is a function of the field list, the threshold and
  the way floats are printed only. It returns the pair of \<open>all_ok\<close> and the descriptions,
  where the descriptions are, in the order of the input, one entry for each field whose
  name is not \<open>text_line\<close> and whose confidence is below the threshold, and for no other
  field; \<open>all_ok\<close> holds if and only if there is no description. A field named
  \<open>text_line\<close> never has a description.
\<close>

theorem check_confidence_filter:
  "check_confidence fmt_2f str_float threshold fs =
     (filter (\<lambda>f. confidence f < threshold \<and> field_name f \<noteq> ''text_line'') fs = [],
      map (describe_low fmt_2f str_float threshold)
          (filter (\<lambda>f. confidence f < threshold \<and> field_name f \<noteq> ''text_line'') fs)) \<and>
   fst (check_confidence fmt_2f str_float threshold fs)
     = (snd (check_confidence fmt_2f str_float threshold fs) = [])"
  by (simp add: check_confidence_def confidence_loop_eq Let_def)

section \<open>Properties of the invoice cross-check\<close>

text \<open>
  Claim C8. For every way floats are parsed and compared and for every invoice result,
  \<^verbatim>\<open>_validate_totals\<close> raises nothing and leaves the result as it was. It logs one
  warning when subtotal, tax and total are all present, their values parse as numbers once
  commas and dollar signs are removed, and the mismatch test holds of the three numbers; it
  logs nothing when the test fails, and nothing when a field or a value is absent or a
  value does not parse.
\<close>

theorem validate_totals_frame:
  "\<exists>logged. validate_totals to_float mismatch result = Inr (result, logged) \<and>
     logged =
       (case (subtotal result, tax_amount result, total_amount result) of
          (Some subtotal_field, Some tax_field, Some total_field) \<Rightarrow>
            (case (amount_of to_float subtotal_field, amount_of to_float tax_field,
                   amount_of to_float total_field) of
               (Inr s, Inr t, Inr tot) \<Rightarrow>
                 if mismatch s t tot then [Total_mismatch_warning s t tot] else []
             | _ \<Rightarrow> [])
        | _ \<Rightarrow> [])"
proof -
  have err: "e \<in> {ValueError, TypeError, AttributeError}"
    if "amount_of to_float fld = Inl e" for fld e
    using that by (auto simp: amount_of_def split: option.splits)
  show ?thesis
    unfolding validate_totals_def validate_totals_try_def
    by (auto split: option.split sum.split dest: err)
qed

theorem validate_totals_frame_witness:
  "validate_totals decimal_of exact_mismatch
       (invoice_of (Some ''100.00'') (Some ''5.00'') (Some ''105.00''))
     = Inr (invoice_of (Some ''100.00'') (Some ''5.00'') (Some ''105.00''), []) \<and>
   validate_totals decimal_of exact_mismatch
       (invoice_of (Some ''$1,100.00'') (Some ''5.00'') (Some ''110.00''))
     = Inr (invoice_of (Some ''$1,100.00'') (Some ''5.00'') (Some ''110.00''),
            [Total_mismatch_warning 1100 5 110]) \<and>
   validate_totals decimal_of exact_mismatch
       (invoice_of (Some ''100.00'') None (Some ''105.00''))
     = Inr (invoice_of (Some ''100.00'') None (Some ''105.00''), []) \<and>
   validate_totals decimal_of exact_mismatch
       (invoice_of (Some ''100.00'') (Some ''n/a'') (Some ''105.00''))
     = Inr (invoice_of (Some ''100.00'') (Some ''n/a'') (Some ''105.00''), [])"
proof -
  have a: "amount_of decimal_of \<lparr>field_name = n, fvalue = Some ''100.00'', confidence = c,
             bounding_box = None, page_number = None\<rparr> = Inr 100"
      "amount_of decimal_of \<lparr>field_name = n, fvalue = Some ''5.00'', confidence = c,
             bounding_box = None, page_number = None\<rparr> = Inr 5"
      "amount_of decimal_of \<lparr>field_name = n, fvalue = Some ''105.00'', confidence = c,
             bounding_box = None, page_number = None\<rparr> = Inr 105"
      "amount_of decimal_of \<lparr>field_name = n, fvalue = Some ''110.00'', confidence = c,
             bounding_box = None, page_number = None\<rparr> = Inr 110"
      "amount_of decimal_of \<lparr>field_name = n, fvalue = Some ''$1,100.00'', confidence = c,
             bounding_box = None, page_number = None\<rparr> = Inr 1100"
      "amount_of decimal_of \<lparr>field_name = n, fvalue = Some ''n/a'', confidence = c,
             bounding_box = None, page_number = None\<rparr> = Inl ValueError"
      "amount_of decimal_of \<lparr>field_name = n, fvalue = None, confidence = c,
             bounding_box = None, page_number = None\<rparr> = Inl AttributeError" for n c
    by (simp_all add: amount_of_def decimal_of_def is_digit_def int_of_str_def strip_def
          is_space_def digit_val_def)
  show ?thesis
    using validate_totals_frame [of decimal_of exact_mismatch
            "invoice_of (Some ''100.00'') (Some ''5.00'') (Some ''105.00'')"]
      validate_totals_frame [of decimal_of exact_mismatch
            "invoice_of (Some ''$1,100.00'') (Some ''5.00'') (Some ''110.00'')"]
      validate_totals_frame [of decimal_of exact_mismatch
            "invoice_of (Some ''100.00'') None (Some ''105.00'')"]
      validate_totals_frame [of decimal_of exact_mismatch
            "invoice_of (Some ''100.00'') (Some ''n/a'') (Some ''105.00'')"]
    by (simp add: invoice_of_def a exact_mismatch_def)
qed

section \<open>Properties of the MICR extractor\<close>

text \<open>The search for \<^verbatim>\<open>MICR_PATTERN\<close> in a text that holds the example line after a
  prefix without digits: no match starts in the prefix, unless the prefix ends with
  U+2446, and then the match has the same groups.\<close>

lemma micr_match_tail_Nil: "micr_match_tail [] = []"
  by (simp add: micr_match_tail_def digits_exact_def)










end
